theory Spec2Isabelle
  imports Main "HOL-Library.Word"
begin

section \<open>Machine types and the process state\<close>

text \<open>
  The two components of \<^verbatim>\<open>src/dbg/_global.cpp\<close> that are verified here are the
  allocation wrappers (\<^verbatim>\<open>emalloc\<close>, \<^verbatim>\<open>erealloc\<close>, \<^verbatim>\<open>efree\<close>, \<^verbatim>\<open>memleaks\<close>) and the
  executable probe \<^verbatim>\<open>GetFileArchitecture\<close>.

  Pointers are addresses (\<open>nat\<close>), the null pointer is \<open>0\<close>. Memory is a function from
  addresses to bytes. \<^verbatim>\<open>size_t\<close> values are natural numbers.
\<close>

type_synonym byte = "8 word"
type_synonym WORD = "16 word"
type_synonym DWORD = "32 word"
type_synonym LONG = "32 word"

text \<open>
  The state the allocation wrappers work on:
  \<^item> \<open>emalloc_count\<close> is \<^verbatim>\<open>static int emalloc_count = 0;\<close>, a 32-bit \<^verbatim>\<open>int\<close>; it is
    kept as a 32-bit word and read as a signed number with \<open>sint\<close>;
  \<^item> \<open>memory\<close> is the contents of the address space;
  \<^item> \<open>blocks\<close> are the blocks the platform allocator has handed out and not yet taken
    back (base address and size);
  \<^item> \<open>shown\<close> are the message boxes shown so far (text and caption).
\<close>

record world =
  emalloc_count :: "32 word"
  memory :: "nat \<Rightarrow> byte"
  blocks :: "nat \<rightharpoonup> nat"
  shown :: "(string \<times> string) list"

text \<open>
  A call either returns to its caller with a value, or the process ends
  (\<^verbatim>\<open>ExitProcess\<close> with an exit code), or an assertion fails.
\<close>

datatype 'a outcome = Returned 'a world | Exited nat world | AssertionFailed


section \<open>The platform allocator\<close>

text \<open>
  \<^verbatim>\<open>GlobalAlloc\<close>, \<^verbatim>\<open>GlobalFree\<close>, \<^verbatim>\<open>memset\<close> and \<^verbatim>\<open>MessageBoxW\<close> belong to the platform.
  Where \<^verbatim>\<open>GlobalAlloc(GMEM_FIXED, size)\<close> places a block, and whether it can, is the
  platform's choice: it is a parameter \<open>pf\<close> that maps the blocks in use and the requested
  size to the address of the new block, or to \<open>0\<close> when the request cannot be met. The
  memory of a new block is whatever it was (\<^verbatim>\<open>GMEM_FIXED\<close> does not initialise it).
\<close>

type_synonym allocator = "(nat \<rightharpoonup> nat) \<Rightarrow> nat \<Rightarrow> nat"

definition GlobalAlloc :: "allocator \<Rightarrow> nat \<Rightarrow> world \<Rightarrow> nat \<times> world" where
  "GlobalAlloc pf sz w =
     (let a = pf (blocks w) sz
      in if a = 0 then (0, w) else (a, w\<lparr>blocks := (blocks w)(a \<mapsto> sz)\<rparr>))"

definition GlobalFree :: "nat \<Rightarrow> world \<Rightarrow> world" where
  "GlobalFree p w = w\<lparr>blocks := (blocks w)(p := None)\<rparr>"

definition memset :: "nat \<Rightarrow> byte \<Rightarrow> nat \<Rightarrow> world \<Rightarrow> world" where
  "memset a v n w =
     w\<lparr>memory := (\<lambda>x. if a \<le> x \<and> x < a + n then v else memory w x)\<rparr>"

definition MessageBoxW :: "string \<Rightarrow> string \<Rightarrow> world \<Rightarrow> world" where
  "MessageBoxW msg caption w = w\<lparr>shown := shown w @ [(msg, caption)]\<rparr>"


section \<open>The allocation wrappers\<close>

text \<open>
  Modelled from the spec: the macro \<^verbatim>\<open>ASSERT_NONZERO\<close> is declared in \<^verbatim>\<open>_global.h\<close>,
  which is not among the sources. The specification calls a zero size a contract violation
  that is asserted, not a recoverable error: the check is that its argument is not zero, and
  a failed check ends the call with \<open>AssertionFailed\<close>.
\<close>

definition ASSERT_NONZERO :: "nat \<Rightarrow> bool" where
  "ASSERT_NONZERO x \<longleftrightarrow> x \<noteq> 0"

text \<open>
  \<^verbatim>\<open>void* emalloc(size_t size, const char* reason)\<close>: the block comes from
  \<^verbatim>\<open>GlobalAlloc\<close>; a null result shows the message box and ends the process with exit
  code 1; otherwise the block is cleared with \<^verbatim>\<open>memset\<close>, the counter is incremented and
  the block returned. The trace-file code is commented out in the source, so \<open>reason\<close> is
  not used.
\<close>

definition emalloc :: "allocator \<Rightarrow> nat \<Rightarrow> string \<Rightarrow> world \<Rightarrow> nat outcome" where
  "emalloc pf sz reason w =
     (if \<not> ASSERT_NONZERO sz then AssertionFailed
      else case GlobalAlloc pf sz w of
        (a, w1) \<Rightarrow>
          if a = 0 then Exited 1 (MessageBoxW ''Could not allocate memory'' ''Error'' w1)
          else (let w2 = memset a 0 sz w1;
                    w3 = w2\<lparr>emalloc_count := emalloc_count w2 + 1\<rparr>
                in Returned a w3))"

text \<open>
  \<^verbatim>\<open>void efree(void* ptr, const char* reason)\<close>: the counter is decremented, then the
  pointer goes to \<^verbatim>\<open>GlobalFree\<close>. There is no test of the pointer.
\<close>

definition efree :: "nat \<Rightarrow> string \<Rightarrow> world \<Rightarrow> world" where
  "efree p reason w = GlobalFree p (w\<lparr>emalloc_count := emalloc_count w - 1\<rparr>)"

text \<open>
  \<^verbatim>\<open>void* erealloc(void* ptr, size_t size, const char* reason)\<close>: after the assertion,
  a non-null pointer is freed with \<open>efree\<close>, and the result is that of \<open>emalloc\<close>.
\<close>

definition erealloc :: "allocator \<Rightarrow> nat \<Rightarrow> nat \<Rightarrow> string \<Rightarrow> world \<Rightarrow> nat outcome" where
  "erealloc pf p sz reason w =
     (if \<not> ASSERT_NONZERO sz then AssertionFailed
      else (let w1 = (if p \<noteq> 0 then efree p reason w else w)
            in emalloc pf sz reason w1))"

text \<open>\<^verbatim>\<open>int memleaks()\<close> returns the counter.\<close>

definition memleaks :: "world \<Rightarrow> 32 word" where
  "memleaks w = emalloc_count w"

text \<open>
  The specification's wording of \<^verbatim>\<open>reallocate\<close>, for comparison with \<open>erealloc\<close>: if the
  buffer is non-null it is released first, then a buffer of the new size is allocated.
\<close>

definition release_then_allocate ::
  "allocator \<Rightarrow> nat \<Rightarrow> nat \<Rightarrow> string \<Rightarrow> world \<Rightarrow> nat outcome" where
  "release_then_allocate pf p n r w =
     (if p \<noteq> 0 then emalloc pf n r (efree p r w) else emalloc pf n r w)"


section \<open>The executable probe\<close>

text \<open>
  Modelled from the spec: the enumeration \<^verbatim>\<open>arch\<close> is declared in \<^verbatim>\<open>_global.h\<close>, which
  is not among the sources; the specification gives its four values, and the source uses
  them under these names.
\<close>

datatype arch = notfound | invalid | x32 | x64

text \<open>
  The file is built for 32-bit and for 64-bit Windows; \<^verbatim>\<open>size_t\<close> has 32 or 64 bits.
  The cast \<^verbatim>\<open>(size_t)pdh->e_lfanew\<close> converts a signed 32-bit \<^verbatim>\<open>LONG\<close> to this unsigned
  type: the value modulo \<open>2 ^ bits\<close>.
\<close>

datatype target = Win32 | Win64

fun size_t_bits :: "target \<Rightarrow> nat" where
  "size_t_bits Win32 = 32"
| "size_t_bits Win64 = 64"

definition size_t_of_LONG :: "target \<Rightarrow> LONG \<Rightarrow> nat" where
  "size_t_of_LONG t v = nat (sint v mod 2 ^ size_t_bits t)"

text \<open>The constants of the platform headers that the probe compares with.\<close>

definition IMAGE_DOS_SIGNATURE :: WORD where
  "IMAGE_DOS_SIGNATURE = 0x5A4D"

definition IMAGE_NT_SIGNATURE :: DWORD where
  "IMAGE_NT_SIGNATURE = 0x00004550"

definition IMAGE_FILE_MACHINE_I386 :: WORD where
  "IMAGE_FILE_MACHINE_I386 = 0x014c"

definition IMAGE_FILE_MACHINE_AMD64 :: WORD where
  "IMAGE_FILE_MACHINE_AMD64 = 0x8664"

text \<open>Little-endian loads of 16 and 32 bits from a byte buffer, at a byte offset.\<close>

definition load_WORD :: "(nat \<Rightarrow> byte) \<Rightarrow> nat \<Rightarrow> WORD" where
  "load_WORD m a = word_of_nat (unat (m a) + 2 ^ 8 * unat (m (a + 1)))"

definition load_DWORD :: "(nat \<Rightarrow> byte) \<Rightarrow> nat \<Rightarrow> DWORD" where
  "load_DWORD m a =
     word_of_nat (unat (m a) + 2 ^ 8 * unat (m (a + 1)) + 2 ^ 16 * unat (m (a + 2))
                  + 2 ^ 24 * unat (m (a + 3)))"

text \<open>
  The header fields the probe reads. \<^verbatim>\<open>IMAGE_DOS_HEADER\<close> has \<^verbatim>\<open>e_magic\<close> (a \<^verbatim>\<open>WORD\<close>) at
  offset 0 and \<^verbatim>\<open>e_lfanew\<close> (a \<^verbatim>\<open>LONG\<close>) at offset 60. \<^verbatim>\<open>IMAGE_NT_HEADERS\<close> has
  \<^verbatim>\<open>Signature\<close> (a \<^verbatim>\<open>DWORD\<close>) at offset 0 and \<^verbatim>\<open>FileHeader.Machine\<close> (a \<^verbatim>\<open>WORD\<close>) at
  offset 4. \<open>pnth\<close> is the offset of the NT headers in the buffer.
\<close>

definition e_magic :: "(nat \<Rightarrow> byte) \<Rightarrow> WORD" where
  "e_magic data = load_WORD data 0"

definition e_lfanew :: "(nat \<Rightarrow> byte) \<Rightarrow> LONG" where
  "e_lfanew data = load_DWORD data 60"

definition Signature :: "(nat \<Rightarrow> byte) \<Rightarrow> nat \<Rightarrow> DWORD" where
  "Signature data pnth = load_DWORD data pnth"

definition Machine :: "(nat \<Rightarrow> byte) \<Rightarrow> nat \<Rightarrow> WORD" where
  "Machine data pnth = load_WORD data (pnth + 4)"

text \<open>
  The file system. A path either cannot be opened (\<open>None\<close>: \<^verbatim>\<open>CreateFileW\<close> returns
  \<^verbatim>\<open>INVALID_HANDLE_VALUE\<close>) or names a file with its bytes; \<open>readable\<close> says whether
  \<^verbatim>\<open>ReadFile\<close> on it succeeds. \<^verbatim>\<open>GetFileSize(hFile, 0)\<close> is the low-order 32 bits of the
  length. A successful \<^verbatim>\<open>ReadFile\<close> of \<open>n\<close> bytes from the start of the file stores the
  first \<open>n\<close> bytes of the file (all of them if there are fewer) at the start of the buffer,
  leaves the rest of the buffer as it was, and reports the number of bytes stored.
\<close>

record fileobj =
  contents :: "byte list"
  readable :: bool

type_synonym filesystem = "string \<Rightarrow> fileobj option"

definition CreateFileW :: "filesystem \<Rightarrow> string \<Rightarrow> fileobj option" where
  "CreateFileW fs name = fs name"

definition GetFileSize :: "fileobj \<Rightarrow> DWORD" where
  "GetFileSize f = word_of_nat (length (contents f))"

definition ReadFile ::
  "fileobj \<Rightarrow> (nat \<Rightarrow> byte) \<Rightarrow> DWORD \<Rightarrow> ((nat \<Rightarrow> byte) \<times> DWORD) option" where
  "ReadFile f buf n =
     (if readable f
      then (let got = take (unat n) (contents f)
            in Some (\<lambda>i. if i < length got then got ! i else buf i, word_of_nat (length got)))
      else None)"

text \<open>
  \<^verbatim>\<open>arch GetFileArchitecture(const char* szFileName)\<close>. The local array
  \<^verbatim>\<open>unsigned char data[0x1000]\<close> is not initialised: \<open>stack\<close> is what the stack holds at
  the array's address before the call, as a function of the offset from the start of the
  array (offsets from \<open>0x1000\<close> on are the memory that follows the array). The variable
  \<^verbatim>\<open>read\<close> is set by \<^verbatim>\<open>ReadFile\<close> and not used afterwards.
\<close>

definition GetFileArchitecture ::
  "target \<Rightarrow> filesystem \<Rightarrow> (nat \<Rightarrow> byte) \<Rightarrow> string \<Rightarrow> arch" where
  "GetFileArchitecture t fs stack szFileName =
     (case CreateFileW fs szFileName of
        None \<Rightarrow> notfound
      | Some hFile \<Rightarrow>
          (let fileSize = GetFileSize hFile;
               readSize = (if (0x1000 :: DWORD) > fileSize then fileSize else 0x1000)
           in case ReadFile hFile stack readSize of
                None \<Rightarrow> notfound
              | Some (data, read) \<Rightarrow>
                  if e_magic data = IMAGE_DOS_SIGNATURE
                     \<and> size_t_of_LONG t (e_lfanew data) < unat readSize
                  then (let pnth = nat (sint (e_lfanew data))
                        in if Signature data pnth = IMAGE_NT_SIGNATURE
                           then (if Machine data pnth = IMAGE_FILE_MACHINE_I386 then x32
                                 else if Machine data pnth = IMAGE_FILE_MACHINE_AMD64 then x64
                                 else invalid)
                           else invalid)
                  else invalid))"

text \<open>
  The same control flow, recording instead of the classification what is loaded from the
  buffer: after a successful read, the number of bytes \<^verbatim>\<open>ReadFile\<close> stored and the
  offsets into \<^verbatim>\<open>data\<close> of the bytes that the header checks load, in program order
  (\<^verbatim>\<open>&&\<close> does not evaluate its right operand when the left one is false). \<open>None\<close> when
  no header check is reached.
\<close>

definition GetFileArchitecture_loads ::
  "target \<Rightarrow> filesystem \<Rightarrow> (nat \<Rightarrow> byte) \<Rightarrow> string \<Rightarrow> (nat \<times> nat list) option" where
  "GetFileArchitecture_loads t fs stack szFileName =
     (case CreateFileW fs szFileName of
        None \<Rightarrow> None
      | Some hFile \<Rightarrow>
          (let fileSize = GetFileSize hFile;
               readSize = (if (0x1000 :: DWORD) > fileSize then fileSize else 0x1000)
           in case ReadFile hFile stack readSize of
                None \<Rightarrow> None
              | Some (data, read) \<Rightarrow>
                  Some (unat read,
                    [0, 1] @
                    (if e_magic data = IMAGE_DOS_SIGNATURE
                     then [60, 61, 62, 63] @
                       (if size_t_of_LONG t (e_lfanew data) < unat readSize
                        then (let pnth = nat (sint (e_lfanew data))
                              in [pnth, pnth + 1, pnth + 2, pnth + 3] @
                                 (if Signature data pnth = IMAGE_NT_SIGNATURE
                                  then [pnth + 4, pnth + 5] else []))
                        else [])
                     else []))))"


section \<open>Concrete inputs\<close>

text \<open>
  A process that has allocated nothing, with memory that is not zero; the same process
  holding one 8-byte block at address 4096; an allocator that has room for one block, at
  address 4096; and an allocator that has no memory left.
\<close>

definition fresh_world :: world where
  "fresh_world = \<lparr>emalloc_count = 0, memory = (\<lambda>_. 0xCD), blocks = Map.empty, shown = []\<rparr>"

definition held_world :: world where
  "held_world = \<lparr>emalloc_count = 1, memory = (\<lambda>_. 0x07), blocks = [4096 \<mapsto> 8], shown = []\<rparr>"

definition one_block_allocator :: allocator where
  "one_block_allocator bs sz = (if bs 4096 = None then 4096 else 0)"

definition exhausted_allocator :: allocator where
  "exhausted_allocator bs sz = 0"

text \<open>
  Files:
  \<^item> \<open>tiny64_bytes\<close>, \<open>tiny32_bytes\<close>: 70 bytes, a DOS header with \<^verbatim>\<open>e_lfanew = 64\<close>,
    then \<^verbatim>\<open>PE\0\0\<close> and the machine field (AMD64, i386);
  \<^item> \<open>far_bytes\<close>: 8198 bytes, a DOS header with \<^verbatim>\<open>e_lfanew = 0x2000\<close> and, at that
    offset, \<^verbatim>\<open>PE\0\0\<close> and the AMD64 machine field;
  \<^item> \<open>edge_bytes\<close>: 65 bytes, a DOS header with \<^verbatim>\<open>e_lfanew = 64\<close> and the single byte
    \<^verbatim>\<open>P\<close> at offset 64;
  \<^item> \<open>mzp_bytes\<close>: the three characters \<^verbatim>\<open>MZP\<close>.
\<close>

definition dos_header :: "byte list \<Rightarrow> byte list" where
  "dos_header lfanew = [0x4D, 0x5A] @ replicate 58 0 @ lfanew"

definition tiny64_bytes :: "byte list" where
  "tiny64_bytes = dos_header [0x40, 0, 0, 0] @ [0x50, 0x45, 0, 0, 0x64, 0x86]"

definition tiny32_bytes :: "byte list" where
  "tiny32_bytes = dos_header [0x40, 0, 0, 0] @ [0x50, 0x45, 0, 0, 0x4C, 0x01]"

definition far_bytes :: "byte list" where
  "far_bytes = dos_header [0, 0x20, 0, 0] @ replicate 8128 0 @ [0x50, 0x45, 0, 0, 0x64, 0x86]"

definition edge_bytes :: "byte list" where
  "edge_bytes = dos_header [0x40, 0, 0, 0] @ [0x50]"

definition mzp_bytes :: "byte list" where
  "mzp_bytes = [0x4D, 0x5A, 0x50]"

definition example_fs :: filesystem where
  "example_fs name =
     (if name = ''tiny64.exe'' then Some \<lparr>contents = tiny64_bytes, readable = True\<rparr>
      else if name = ''tiny32.exe'' then Some \<lparr>contents = tiny32_bytes, readable = True\<rparr>
      else if name = ''far.exe'' then Some \<lparr>contents = far_bytes, readable = True\<rparr>
      else if name = ''edge.bin'' then Some \<lparr>contents = edge_bytes, readable = True\<rparr>
      else if name = ''mzp.txt'' then Some \<lparr>contents = mzp_bytes, readable = True\<rparr>
      else if name = ''empty.txt'' then Some \<lparr>contents = [], readable = True\<rparr>
      else if name = ''locked.exe'' then Some \<lparr>contents = tiny64_bytes, readable = False\<rparr>
      else None)"

text \<open>
  Two states of the stack at the address of \<^verbatim>\<open>data\<close> before the call: all zero, and
  one holding bytes that earlier calls left behind.
\<close>

definition zero_stack :: "nat \<Rightarrow> byte" where
  "zero_stack i = 0"

definition stale_stack :: "nat \<Rightarrow> byte" where
  "stale_stack i =
     (if i = 3 then 0x45 else if i = 6 then 0x4C else if i = 7 then 0x01
      else if i = 60 then 0x02
      else if i = 65 then 0x45 else if i = 68 then 0x64 else if i = 69 then 0x86
      else 0)"


section \<open>Properties of the allocation wrappers\<close>

subsection \<open>Auxiliary facts\<close>

text \<open>The signed reading of a 32-bit counter after a decrement, away from the least value.\<close>

lemma sint_minus_one:
  assumes "sint (x :: 32 word) \<noteq> - (2 ^ 31)"
  shows "sint (x - 1) = sint x - 1"
proof -
  have lo: "- (2 ^ 31) \<le> sint x" using sint_ge [of x] by simp
  have hi: "sint x < 2 ^ 31" using sint_lt [of x] by simp
  have "sint (x - 1) = signed_take_bit 31 (sint x - 1)"
    by (simp add: sint_word_ariths)
  also have "\<dots> = sint x - 1"
    using lo hi assms by (simp add: signed_take_bit_int_eq_self_iff)
  finally show ?thesis .
qed

lemma emalloc_Returned:
  assumes "emalloc pf n r w = Returned a w'"
  shows "n \<noteq> 0" and "a \<noteq> 0" and "a = pf (blocks w) n"
    and "emalloc_count w' = emalloc_count w + 1"
    and "memory w' = (\<lambda>x. if a \<le> x \<and> x < a + n then 0 else memory w x)"
    and "blocks w' = (blocks w)(a \<mapsto> n)"
    and "shown w' = shown w"
  using assms
  by (auto simp: emalloc_def GlobalAlloc_def memset_def ASSERT_NONZERO_def Let_def split: if_splits)

lemma emalloc_success:
  assumes "n \<noteq> 0" and "pf (blocks w) n \<noteq> 0"
  shows "\<exists>w'. emalloc pf n r w = Returned (pf (blocks w) n) w'"
  using assms by (simp add: emalloc_def GlobalAlloc_def ASSERT_NONZERO_def Let_def)

lemma emalloc_failure:
  assumes "n \<noteq> 0" and "pf (blocks w) n = 0"
  shows "emalloc pf n r w = Exited 1 (w\<lparr>shown := shown w @ [(''Could not allocate memory'', ''Error'')]\<rparr>)"
  using assms by (simp add: emalloc_def GlobalAlloc_def ASSERT_NONZERO_def Let_def MessageBoxW_def)

lemma efree_fields:
  "emalloc_count (efree p r w) = emalloc_count w - 1"
  "memory (efree p r w) = memory w"
  "blocks (efree p r w) = (blocks w)(p := None)"
  "shown (efree p r w) = shown w"
  by (simp_all add: efree_def GlobalFree_def)

lemma one_block_emalloc:
  "n \<noteq> 0 \<Longrightarrow> \<exists>w'. emalloc one_block_allocator n r fresh_world = Returned 4096 w'"
  using emalloc_success [of n one_block_allocator fresh_world r]
  by (simp add: one_block_allocator_def fresh_world_def)

lemma held_erealloc:
  "n \<noteq> 0 \<Longrightarrow> \<exists>w'. erealloc one_block_allocator 4096 n r held_world = Returned 4096 w'"
  using emalloc_success [of n one_block_allocator "efree 4096 r held_world" r]
  by (simp add: erealloc_def ASSERT_NONZERO_def one_block_allocator_def held_world_def efree_fields)


subsection \<open>Release after allocate\<close>

text \<open>
  Claim C1. For every size \<open>n > 0\<close> and every reason \<open>r\<close>: when \<open>emalloc n r\<close> returns a
  buffer, \<open>efree\<close> of that buffer brings \<open>memleaks\<close> back to the value it had before the
  \<open>emalloc\<close> call.
\<close>

theorem efree_emalloc_restores_count:
  assumes "n \<noteq> 0" and "emalloc pf n r w = Returned a w'"
  shows "memleaks (efree a r w') = memleaks w"
  using emalloc_Returned(4) [OF assms(2)] by (simp add: memleaks_def efree_fields)

theorem efree_emalloc_restores_count_witness:
  "\<exists>w'. emalloc one_block_allocator 16 ''reason'' fresh_world = Returned 4096 w'
      \<and> memleaks (efree 4096 ''reason'' w') = memleaks fresh_world"
proof -
  have n: "(16::nat) \<noteq> 0" by simp
  obtain w' where h: "emalloc one_block_allocator 16 ''reason'' fresh_world = Returned 4096 w'"
    using one_block_emalloc [OF n] by blast
  show ?thesis using h efree_emalloc_restores_count [OF n h] by simp
qed


subsection \<open>Release is unconditional\<close>

text \<open>
  Claim C2. \<open>efree\<close> decrements \<open>emalloc_count\<close> by one for every pointer: nothing about
  the pointer is assumed, so this includes the null pointer and a pointer that has been
  released before (two calls in a row take two off). The decrement is that of the 32-bit
  \<^verbatim>\<open>int\<close>; read as a signed number the counter goes down by exactly one unless it already
  is the least \<^verbatim>\<open>int\<close>, and nothing keeps it from going below zero: the concrete case
  starts from a counter of zero and ends at \<open>-1\<close> and \<open>-2\<close>.
\<close>

theorem efree_decrements_unconditionally:
  "emalloc_count (efree p r w) = emalloc_count w - 1
   \<and> emalloc_count (efree p r (efree p r w)) = emalloc_count w - 2
   \<and> (sint (emalloc_count w) \<noteq> - (2 ^ 31) \<longrightarrow>
        sint (emalloc_count (efree p r w)) = sint (emalloc_count w) - 1)"
  by (simp add: efree_fields sint_minus_one)

theorem efree_decrements_unconditionally_witness:
  "sint (emalloc_count fresh_world) = 0
   \<and> sint (emalloc_count (efree 0 ''reason'' fresh_world)) = - 1
   \<and> sint (emalloc_count (efree 4096 ''reason'' (efree 4096 ''reason'' fresh_world))) = - 2"
proof -
  have z: "emalloc_count fresh_world = 0" by (simp add: fresh_world_def)
  have "sint (emalloc_count (efree 0 ''reason'' fresh_world)) = - 1"
    using efree_decrements_unconditionally [of 0 "''reason''" fresh_world] by (simp add: z)
  moreover have "sint (emalloc_count (efree 4096 ''reason'' (efree 4096 ''reason'' fresh_world))) = - 2"
    using efree_decrements_unconditionally [of 4096 "''reason''" fresh_world] by (simp add: z)
  ultimately show ?thesis by (simp add: z)
qed


subsection \<open>Reallocate is release, then allocate\<close>

text \<open>
  Claim C3. For every nonzero size \<open>n\<close>, \<open>erealloc p n r\<close> is the same computation, in
  result and in final state, as \<open>efree p r\<close> (when \<open>p\<close> is not null) followed by
  \<open>emalloc n r\<close>. With a null pointer it is \<open>emalloc n r\<close> itself, so a call that returns
  has raised \<open>memleaks\<close> by one. With a non-null pointer a call that returns leaves
  \<open>memleaks\<close> as it was, the new buffer holds \<open>n\<close> zero bytes whatever the old one held,
  and the old block is with the platform again unless its address was handed out anew.
\<close>

theorem erealloc_is_release_then_allocate:
  assumes "n \<noteq> 0"
  shows "erealloc pf p n r w = release_then_allocate pf p n r w
     \<and> erealloc pf 0 n r w = emalloc pf n r w
     \<and> (\<forall>a w'. erealloc pf 0 n r w = Returned a w' \<longrightarrow> memleaks w' = memleaks w + 1)
     \<and> (\<forall>a w'. p \<noteq> 0 \<and> erealloc pf p n r w = Returned a w' \<longrightarrow>
           memleaks w' = memleaks w
           \<and> (\<forall>i. i < n \<longrightarrow> memory w' (a + i) = 0)
           \<and> (a \<noteq> p \<longrightarrow> blocks w' p = None))"
proof -
  have eq: "erealloc pf q n r w = release_then_allocate pf q n r w" for q
    using assms by (simp add: erealloc_def release_then_allocate_def ASSERT_NONZERO_def)
  have null: "erealloc pf 0 n r w = emalloc pf n r w"
    by (simp add: eq release_then_allocate_def)
  have c1: "memleaks w' = memleaks w + 1" if "erealloc pf 0 n r w = Returned a w'" for a w'
    using emalloc_Returned(4) [of pf n r w a w'] that null by (simp add: memleaks_def)
  have c2: "memleaks w' = memleaks w \<and> (\<forall>i. i < n \<longrightarrow> memory w' (a + i) = 0)
            \<and> (a \<noteq> p \<longrightarrow> blocks w' p = None)"
    if "p \<noteq> 0" and "erealloc pf p n r w = Returned a w'" for a w'
  proof -
    from that have h: "emalloc pf n r (efree p r w) = Returned a w'"
      by (simp add: eq release_then_allocate_def)
    show ?thesis
      using emalloc_Returned(4,5,6) [OF h] by (simp add: memleaks_def efree_fields)
  qed
  show ?thesis using eq null c1 c2 by blast
qed

theorem erealloc_is_release_then_allocate_witness:
  "\<exists>w' w''. erealloc one_block_allocator 4096 16 ''reason'' held_world = Returned 4096 w'
      \<and> erealloc one_block_allocator 4096 16 ''reason'' held_world
          = release_then_allocate one_block_allocator 4096 16 ''reason'' held_world
      \<and> memleaks w' = memleaks held_world
      \<and> memory held_world 4099 = 7 \<and> memory w' 4099 = 0
      \<and> erealloc one_block_allocator 0 16 ''reason'' fresh_world = Returned 4096 w''
      \<and> memleaks w'' = memleaks fresh_world + 1"
proof -
  have n: "(16::nat) \<noteq> 0" by simp
  obtain w' where h: "erealloc one_block_allocator 4096 16 ''reason'' held_world = Returned 4096 w'"
    using held_erealloc [OF n] by blast
  note t = erealloc_is_release_then_allocate [OF n, of one_block_allocator 4096 "''reason''" held_world]
  from t h have a: "memleaks w' = memleaks held_world" by simp
  from t h have z: "\<forall>i. i < (16::nat) \<longrightarrow> memory w' (4096 + i) = 0" by simp
  have b: "memory w' 4099 = 0" using z [rule_format, of 3] by simp
  have c: "memory held_world 4099 = 7" by (simp add: held_world_def)
  note u = erealloc_is_release_then_allocate [OF n, of one_block_allocator 0 "''reason''" fresh_world]
  obtain w'' where k: "emalloc one_block_allocator 16 ''reason'' fresh_world = Returned 4096 w''"
    using one_block_emalloc [OF n] by blast
  have k': "erealloc one_block_allocator 0 16 ''reason'' fresh_world = Returned 4096 w''"
    using u [THEN conjunct2, THEN conjunct1] k by simp
  have d: "memleaks w'' = memleaks fresh_world + 1"
    using u [THEN conjunct2, THEN conjunct2, THEN conjunct1, rule_format, OF k'] .
  from t have e: "erealloc one_block_allocator 4096 16 ''reason'' held_world
          = release_then_allocate one_block_allocator 4096 16 ''reason'' held_world" by simp
  show ?thesis using h a b c k' d e by blast
qed


subsection \<open>Zero initialisation\<close>

text \<open>
  Claim C4. For every nonzero size \<open>n\<close>, when \<open>emalloc n r\<close> returns a buffer, each of the
  \<open>n\<close> bytes of the buffer is zero in the state it returns in, and the block is recorded
  with size \<open>n\<close>.
\<close>

theorem emalloc_zero_initialised:
  assumes "n \<noteq> 0" and "emalloc pf n r w = Returned a w'"
  shows "(\<forall>i. i < n \<longrightarrow> memory w' (a + i) = 0) \<and> blocks w' a = Some n"
  using emalloc_Returned(5,6) [OF assms(2)] by simp

theorem emalloc_zero_initialised_witness:
  "\<exists>w'. emalloc one_block_allocator 16 ''reason'' fresh_world = Returned 4096 w'
      \<and> memory fresh_world 4111 = 0xCD
      \<and> memory w' 4096 = 0 \<and> memory w' 4111 = 0 \<and> blocks w' 4096 = Some 16"
proof -
  have n: "(16::nat) \<noteq> 0" by simp
  obtain w' where h: "emalloc one_block_allocator 16 ''reason'' fresh_world = Returned 4096 w'"
    using one_block_emalloc [OF n] by blast
  note t = emalloc_zero_initialised [OF n h]
  from t have z: "\<forall>i. i < (16::nat) \<longrightarrow> memory w' (4096 + i) = 0" by simp
  have a: "memory w' 4096 = 0" using z [rule_format, of 0] by simp
  have b: "memory w' 4111 = 0" using z [rule_format, of 15] by simp
  from t have c: "blocks w' 4096 = Some 16" by simp
  have d: "memory fresh_world 4111 = 0xCD" by (simp add: fresh_world_def)
  show ?thesis using h a b c d by blast
qed


subsection \<open>Allocation returns a valid buffer or ends the process\<close>

text \<open>
  Claim C5. For every nonzero size: if the platform allocator yields a block, \<open>emalloc\<close>
  returns that non-null block with the counter incremented; if it yields the null pointer,
  \<open>emalloc\<close> does not return: the message box \<^verbatim>\<open>Could not allocate memory\<close> is shown and
  the process ends with exit code 1, the counter unchanged. A returned pointer is never
  null, and there is no third outcome.
\<close>

theorem emalloc_returns_valid_or_exits:
  assumes "n \<noteq> 0"
  shows "(fst (GlobalAlloc pf n w) \<noteq> 0 \<longrightarrow>
            (\<exists>w'. emalloc pf n r w = Returned (fst (GlobalAlloc pf n w)) w'
                 \<and> emalloc_count w' = emalloc_count w + 1))
       \<and> (fst (GlobalAlloc pf n w) = 0 \<longrightarrow>
            (\<exists>w'. emalloc pf n r w = Exited 1 w'
                 \<and> shown w' = shown w @ [(''Could not allocate memory'', ''Error'')]
                 \<and> emalloc_count w' = emalloc_count w))
       \<and> (\<forall>a w'. emalloc pf n r w = Returned a w' \<longrightarrow> a \<noteq> 0)
       \<and> emalloc pf n r w \<noteq> AssertionFailed"
proof -
  have g: "fst (GlobalAlloc pf n w) = pf (blocks w) n"
    by (simp add: GlobalAlloc_def Let_def)
  have s: "\<exists>w'. emalloc pf n r w = Returned (pf (blocks w) n) w'
                 \<and> emalloc_count w' = emalloc_count w + 1" if ok: "pf (blocks w) n \<noteq> 0"
  proof -
    obtain w' where h: "emalloc pf n r w = Returned (pf (blocks w) n) w'"
      using emalloc_success [of n pf w r] assms ok by blast
    then show ?thesis using emalloc_Returned(4) [OF h] by blast
  qed
  have f: "\<exists>w'. emalloc pf n r w = Exited 1 w'
                 \<and> shown w' = shown w @ [(''Could not allocate memory'', ''Error'')]
                 \<and> emalloc_count w' = emalloc_count w" if "pf (blocks w) n = 0"
    using emalloc_failure [of n pf w r] assms that by simp
  have nn: "a \<noteq> 0" if "emalloc pf n r w = Returned a w'" for a w'
    using emalloc_Returned(2) [OF that] .
  have na: "emalloc pf n r w \<noteq> AssertionFailed"
    using s f by (cases "pf (blocks w) n = 0") auto
  show ?thesis unfolding g using s f nn na by blast
qed

theorem emalloc_returns_valid_or_exits_witness:
  "fst (GlobalAlloc one_block_allocator 16 fresh_world) = 4096
   \<and> (\<exists>w'. emalloc one_block_allocator 16 ''reason'' fresh_world = Returned 4096 w'
        \<and> emalloc_count w' = emalloc_count fresh_world + 1)
   \<and> fst (GlobalAlloc exhausted_allocator 16 fresh_world) = 0
   \<and> (\<exists>w'. emalloc exhausted_allocator 16 ''reason'' fresh_world = Exited 1 w'
        \<and> shown w' = [(''Could not allocate memory'', ''Error'')]
        \<and> emalloc_count w' = emalloc_count fresh_world)"
proof -
  have n: "(16::nat) \<noteq> 0" by simp
  have ok: "fst (GlobalAlloc one_block_allocator 16 fresh_world) = 4096"
    by (simp add: GlobalAlloc_def one_block_allocator_def fresh_world_def)
  have no: "fst (GlobalAlloc exhausted_allocator 16 fresh_world) = 0"
    by (simp add: GlobalAlloc_def exhausted_allocator_def)
  have sh: "shown fresh_world = []" by (simp add: fresh_world_def)
  have a: "\<exists>w'. emalloc one_block_allocator 16 ''reason'' fresh_world = Returned 4096 w'
        \<and> emalloc_count w' = emalloc_count fresh_world + 1"
    using emalloc_returns_valid_or_exits [OF n, of one_block_allocator fresh_world "''reason''"] ok
    by simp
  have b: "\<exists>w'. emalloc exhausted_allocator 16 ''reason'' fresh_world = Exited 1 w'
        \<and> shown w' = [(''Could not allocate memory'', ''Error'')]
        \<and> emalloc_count w' = emalloc_count fresh_world"
    using emalloc_returns_valid_or_exits [OF n, of exhausted_allocator fresh_world "''reason''"] no sh
    by simp
  show ?thesis using ok no a b by blast
qed


section \<open>Properties of the executable probe\<close>

subsection \<open>Auxiliary facts\<close>

text \<open>
  The number of bytes requested is the smaller of the file size and \<open>0x1000\<close>; it never
  exceeds the length of the file, so a successful \<open>ReadFile\<close> stores exactly that many
  bytes and leaves the rest of the buffer as the stack had it.
\<close>

lemma min_readSize:
  "(if (0x1000 :: DWORD) > fileSize then fileSize else 0x1000) = min fileSize 0x1000"
  by (auto simp: min_def)

lemma unat_readSize_le: "unat (min (x :: DWORD) 0x1000) \<le> 4096"
proof -
  have "min x 0x1000 \<le> (0x1000 :: DWORD)" by simp
  then have "unat (min x 0x1000) \<le> unat (0x1000 :: DWORD)" by (simp only: word_le_nat_alt)
  then show ?thesis by simp
qed

lemma unat_GetFileSize_le: "unat (GetFileSize f) \<le> length (contents f)"
  by (simp add: GetFileSize_def unat_of_nat)

lemma unat_readSize_le_length: "unat (min (GetFileSize f) 0x1000) \<le> length (contents f)"
proof -
  have "min (GetFileSize f) 0x1000 \<le> GetFileSize f" by simp
  then have "unat (min (GetFileSize f) 0x1000) \<le> unat (GetFileSize f)" by (simp only: word_le_nat_alt)
  with unat_GetFileSize_le [of f] show ?thesis by linarith
qed

lemma ReadFile_readable:
  assumes "readable f"
  shows "ReadFile f stack (min (GetFileSize f) 0x1000) =
           Some (\<lambda>i. if i < unat (min (GetFileSize f) 0x1000) then contents f ! i else stack i,
                 min (GetFileSize f) 0x1000)"
proof -
  let ?n = "min (GetFileSize f) 0x1000"
  have len: "length (take (unat ?n) (contents f)) = unat ?n"
    using unat_readSize_le_length [of f] by simp
  have "(\<lambda>i. if i < length (take (unat ?n) (contents f))
             then take (unat ?n) (contents f) ! i else stack i)
        = (\<lambda>i. if i < unat ?n then contents f ! i else stack i)"
    unfolding len by (rule ext) simp
  with assms len show ?thesis
    by (simp add: ReadFile_def Let_def)
qed

lemma ReadFile_Some:
  assumes "ReadFile f stack (min (GetFileSize f) 0x1000) = Some (data, read)"
  shows "readable f" and "read = min (GetFileSize f) 0x1000"
    and "data = (\<lambda>i. if i < unat read then contents f ! i else stack i)"
proof -
  show r: "readable f" using assms by (simp add: ReadFile_def split: if_splits)
  have "Some (data, read) =
          Some (\<lambda>i. if i < unat (min (GetFileSize f) 0x1000) then contents f ! i else stack i,
           min (GetFileSize f) 0x1000)"
    by (rule trans [OF assms [symmetric] ReadFile_readable [OF r]])
  then have d: "data = (\<lambda>i. if i < unat (min (GetFileSize f) 0x1000) then contents f ! i else stack i)"
    and e: "read = min (GetFileSize f) 0x1000"
    by (simp_all only: option.inject prod.inject)
  show "read = min (GetFileSize f) 0x1000" by (rule e)
  show "data = (\<lambda>i. if i < unat read then contents f ! i else stack i)"
    unfolding e by (rule d)
qed

lemma size_t_of_LONG_less:
  assumes "n \<le> 4096"
  shows "size_t_of_LONG t e < n \<longleftrightarrow> 0 \<le> sint e \<and> sint e < int n"
proof -
  have lo: "- (2 ^ 31) \<le> sint e" using sint_ge [of e] by simp
  have hi: "sint e < 2 ^ 31" using sint_lt [of e] by simp
  have big: "(2::int) ^ 32 \<le> 2 ^ size_t_bits t" by (cases t) simp_all
  show ?thesis
  proof (cases "0 \<le> sint e")
    case True
    then have "sint e mod 2 ^ size_t_bits t = sint e" using hi big by simp
    then show ?thesis using True by (simp add: size_t_of_LONG_def nat_less_iff)
  next
    case False
    then have neg: "sint e < 0" by simp
    have "sint e mod 2 ^ size_t_bits t = (sint e + 2 ^ size_t_bits t) mod 2 ^ size_t_bits t"
      by simp
    also have "\<dots> = sint e + 2 ^ size_t_bits t"
      using neg lo big by (intro mod_pos_pos_trivial) auto
    finally have "sint e mod 2 ^ size_t_bits t = sint e + 2 ^ size_t_bits t" .
    then have "size_t_of_LONG t e \<ge> 2 ^ 31" using lo big by (simp add: size_t_of_LONG_def)
    then show ?thesis using neg assms by simp
  qed
qed

lemma GetFileArchitecture_unopened:
  "CreateFileW fs name = None \<Longrightarrow> GetFileArchitecture t fs stack name = notfound"
  by (simp add: GetFileArchitecture_def)

lemma GetFileArchitecture_unread:
  assumes "CreateFileW fs name = Some f"
    and "ReadFile f stack (min (GetFileSize f) 0x1000) = None"
  shows "GetFileArchitecture t fs stack name = notfound"
  using assms by (simp add: GetFileArchitecture_def min_readSize Let_def)

lemma GetFileArchitecture_after_read:
  assumes "CreateFileW fs name = Some f"
    and "ReadFile f stack (min (GetFileSize f) 0x1000) = Some (data, read)"
  shows "GetFileArchitecture t fs stack name =
     (if e_magic data = IMAGE_DOS_SIGNATURE \<and> size_t_of_LONG t (e_lfanew data) < unat read
      then (if Signature data (nat (sint (e_lfanew data))) = IMAGE_NT_SIGNATURE
            then (if Machine data (nat (sint (e_lfanew data))) = IMAGE_FILE_MACHINE_I386 then x32
                  else if Machine data (nat (sint (e_lfanew data))) = IMAGE_FILE_MACHINE_AMD64
                  then x64 else invalid)
            else invalid)
      else invalid)"
  using assms ReadFile_Some(2) [OF assms(2)]
  by (simp add: GetFileArchitecture_def min_readSize Let_def)

lemma bounds_check_meaning:
  assumes "ReadFile f stack (min (GetFileSize f) 0x1000) = Some (data, read)"
  shows "size_t_of_LONG t e < unat read \<longleftrightarrow> 0 \<le> sint e \<and> sint e < int (unat read)"
  using size_t_of_LONG_less [of "unat read" t e] unat_readSize_le [of "GetFileSize f"]
    ReadFile_Some(2) [OF assms] by simp

lemma GetFileArchitecture_readable:
  assumes "CreateFileW fs name = Some f" and "readable f"
    and "min (GetFileSize f) 0x1000 = n"
    and "data = (\<lambda>i. if i < unat n then contents f ! i else stack i)"
    and "pnth = nat (sint (e_lfanew data))"
  shows "GetFileArchitecture t fs stack name =
     (if e_magic data = IMAGE_DOS_SIGNATURE
         \<and> 0 \<le> sint (e_lfanew data) \<and> sint (e_lfanew data) < int (unat n)
      then (if Signature data pnth = IMAGE_NT_SIGNATURE
            then (if Machine data pnth = IMAGE_FILE_MACHINE_I386 then x32
                  else if Machine data pnth = IMAGE_FILE_MACHINE_AMD64 then x64 else invalid)
            else invalid)
      else invalid)"
proof -
  have r: "ReadFile f stack (min (GetFileSize f) 0x1000) = Some (data, n)"
    using ReadFile_readable [OF assms(2), of stack] assms(3,4) by simp
  show ?thesis
    unfolding GetFileArchitecture_after_read [OF assms(1) r] bounds_check_meaning [OF r] assms(5)
    by (rule refl)
qed

lemma GetFileArchitecture_loads_readable:
  assumes "CreateFileW fs name = Some f" and "readable f"
    and "min (GetFileSize f) 0x1000 = n"
    and "data = (\<lambda>i. if i < unat n then contents f ! i else stack i)"
    and "pnth = nat (sint (e_lfanew data))"
  shows "GetFileArchitecture_loads t fs stack name =
     Some (unat n,
       [0, 1] @
       (if e_magic data = IMAGE_DOS_SIGNATURE
        then [60, 61, 62, 63] @
          (if 0 \<le> sint (e_lfanew data) \<and> sint (e_lfanew data) < int (unat n)
           then [pnth, pnth + 1, pnth + 2, pnth + 3] @
                (if Signature data pnth = IMAGE_NT_SIGNATURE then [pnth + 4, pnth + 5] else [])
           else [])
        else []))"
proof -
  have r: "ReadFile f stack (min (GetFileSize f) 0x1000) = Some (data, n)"
    using ReadFile_readable [OF assms(2), of stack] assms(3,4) by simp
  have b: "size_t_of_LONG t (e_lfanew data) < unat (min (GetFileSize f) 0x1000)
             \<longleftrightarrow> 0 \<le> sint (e_lfanew data) \<and> sint (e_lfanew data) < int (unat n)"
    using bounds_check_meaning [OF r, of t "e_lfanew data"] assms(3) by simp
  show ?thesis
    using assms(1) r b
    by (simp add: GetFileArchitecture_loads_def min_readSize Let_def assms(3) assms(5))
qed


lemma sint_nonneg_unat:
  assumes "0 \<le> sint (e :: 32 word)"
  shows "sint e = int (unat e)"
proof -
  have hi: "sint e < 2 ^ 32" using sint_lt [of e] by simp
  have "uint e = take_bit 32 (sint e)" using uint_sint [of e] by simp
  also have "\<dots> = sint e" using assms hi by (simp add: take_bit_int_eq_self)
  finally show ?thesis by simp
qed

text \<open>
  The offsets recorded by \<open>GetFileArchitecture_loads\<close> are all that the classification
  depends on: a stack that agrees with the given one on the recorded offsets that lie
  beyond the bytes read gives the same classification.
\<close>

lemma GetFileArchitecture_loads_after_read:
  assumes "CreateFileW fs name = Some f"
    and "ReadFile f stack (min (GetFileSize f) 0x1000) = Some (data, read)"
  shows "GetFileArchitecture_loads t fs stack name =
     Some (unat read,
       [0, 1] @
       (if e_magic data = IMAGE_DOS_SIGNATURE
        then [60, 61, 62, 63] @
          (if size_t_of_LONG t (e_lfanew data) < unat read
           then [nat (sint (e_lfanew data)), nat (sint (e_lfanew data)) + 1,
                 nat (sint (e_lfanew data)) + 2, nat (sint (e_lfanew data)) + 3] @
                (if Signature data (nat (sint (e_lfanew data))) = IMAGE_NT_SIGNATURE
                 then [nat (sint (e_lfanew data)) + 4, nat (sint (e_lfanew data)) + 5] else [])
           else [])
        else []))"
  using assms ReadFile_Some(2) [OF assms(2)]
  by (simp add: GetFileArchitecture_loads_def min_readSize Let_def)

lemma loads_decide_classification:
  assumes "GetFileArchitecture_loads t fs stack name = Some (n, offs)"
    and "\<forall>i \<in> set offs. n \<le> i \<longrightarrow> stack' i = stack i"
  shows "GetFileArchitecture t fs stack' name = GetFileArchitecture t fs stack name"
proof -
  obtain f where o: "CreateFileW fs name = Some f"
    using assms(1) by (cases "CreateFileW fs name") (simp_all add: GetFileArchitecture_loads_def)
  have rf: "readable f"
    using assms(1) o
    by (cases "readable f") (simp_all add: GetFileArchitecture_loads_def ReadFile_def Let_def)
  let ?n = "min (GetFileSize f) 0x1000"
  define D where "D = (\<lambda>i. if i < unat ?n then contents f ! i else stack i)"
  define D' where "D' = (\<lambda>i. if i < unat ?n then contents f ! i else stack' i)"
  have r: "ReadFile f stack ?n = Some (D, ?n)"
    unfolding D_def by (rule ReadFile_readable [OF rf])
  have r': "ReadFile f stack' ?n = Some (D', ?n)"
    unfolding D'_def by (rule ReadFile_readable [OF rf])
  note L = GetFileArchitecture_loads_after_read [OF o r, of t]
  from assms(1) L have n: "n = unat ?n" by simp
  have same: "D' i = D i" if "i \<in> set offs" for i
    using assms(2) that n by (auto simp: D_def D'_def)
  have in01: "0 \<in> set offs" "1 \<in> set offs" using assms(1) L by auto
  have m: "e_magic D' = e_magic D"
    using same [OF in01(1)] same [OF in01(2)] by (simp add: e_magic_def load_WORD_def)
  show ?thesis
  proof (cases "e_magic D = IMAGE_DOS_SIGNATURE")
    case False
    then show ?thesis
      using m by (simp add: GetFileArchitecture_after_read [OF o r] GetFileArchitecture_after_read [OF o r'])
  next
    case True
    then have in60: "60 \<in> set offs" "61 \<in> set offs" "62 \<in> set offs" "63 \<in> set offs"
      using assms(1) L by auto
    have e: "e_lfanew D' = e_lfanew D"
      using same [OF in60(1)] same [OF in60(2)] same [OF in60(3)] same [OF in60(4)]
      by (simp add: e_lfanew_def load_DWORD_def)
    show ?thesis
    proof (cases "size_t_of_LONG t (e_lfanew D) < unat ?n")
      case False
      then show ?thesis
        using m e by (simp add: GetFileArchitecture_after_read [OF o r] GetFileArchitecture_after_read [OF o r'])
    next
      case inb: True
      let ?p = "nat (sint (e_lfanew D))"
      have inp: "?p \<in> set offs" "?p + 1 \<in> set offs" "?p + 2 \<in> set offs" "?p + 3 \<in> set offs"
        using assms(1) L True inb by auto
      have s: "Signature D' ?p = Signature D ?p"
        using same [OF inp(1)] same [OF inp(2)] same [OF inp(3)] same [OF inp(4)]
        by (simp add: Signature_def load_DWORD_def)
      show ?thesis
      proof (cases "Signature D ?p = IMAGE_NT_SIGNATURE")
        case False
        then show ?thesis
          using m e s by (simp add: GetFileArchitecture_after_read [OF o r] GetFileArchitecture_after_read [OF o r'])
      next
        case sg: True
        have inm: "?p + 4 \<in> set offs" "?p + 5 \<in> set offs"
          using assms(1) L True inb sg by auto
        have k: "Machine D' ?p = Machine D ?p"
          using same [OF inm(1)] same [OF inm(2)]
          by (simp add: Machine_def load_WORD_def add.commute)
        show ?thesis
          using m e s k by (simp add: GetFileArchitecture_after_read [OF o r] GetFileArchitecture_after_read [OF o r'])
      qed
    qed
  qed
qed

lemma GetFileArchitecture_empty_file:
  assumes "CreateFileW fs name = Some f" and "readable f" and "contents f = []"
  shows "GetFileArchitecture t fs stack name = invalid"
proof -
  have n: "min (GetFileSize f) 0x1000 = 0" using assms(3) by (simp add: GetFileSize_def)
  show ?thesis
    by (simp add: GetFileArchitecture_readable [OF assms(1,2) n refl refl])
qed


subsection \<open>The concrete files\<close>

lemma dos_header_length: "length (dos_header l) = 60 + length l"
  by (simp add: dos_header_def)

lemma dos_header_magic:
  "(dos_header l @ rest) ! 0 = 0x4D" "(dos_header l @ rest) ! 1 = 0x5A"
  "(dos_header l @ rest) ! Suc 0 = 0x5A"
  by (simp_all add: dos_header_def)

lemma dos_header_lfanew:
  "(dos_header [b0, b1, b2, b3] @ rest) ! 60 = b0"
  "(dos_header [b0, b1, b2, b3] @ rest) ! 61 = b1"
  "(dos_header [b0, b1, b2, b3] @ rest) ! 62 = b2"
  "(dos_header [b0, b1, b2, b3] @ rest) ! 63 = b3"
  by (simp_all add: dos_header_def nth_append)

lemma dos_header_rest:
  "(dos_header [b0, b1, b2, b3] @ rest) ! (64 + i) = rest ! i"
  by (simp add: dos_header_def nth_append)

lemma edge_facts:
  "length edge_bytes = 65"
  "edge_bytes ! 0 = 0x4D" "edge_bytes ! 1 = 0x5A" "edge_bytes ! Suc 0 = 0x5A"
  "edge_bytes ! 60 = 0x40" "edge_bytes ! 61 = 0" "edge_bytes ! 62 = 0" "edge_bytes ! 63 = 0"
  "edge_bytes ! 64 = 0x50"
  using dos_header_rest [of "0x40" 0 0 0 "[0x50]" 0]
  by (simp_all add: edge_bytes_def dos_header_length dos_header_magic dos_header_lfanew)


lemma tiny64_facts:
  "length tiny64_bytes = 70"
  "tiny64_bytes ! 0 = 0x4D" "tiny64_bytes ! 1 = 0x5A" "tiny64_bytes ! Suc 0 = 0x5A"
  "tiny64_bytes ! 60 = 0x40" "tiny64_bytes ! 61 = 0" "tiny64_bytes ! 62 = 0" "tiny64_bytes ! 63 = 0"
  "tiny64_bytes ! 64 = 0x50" "tiny64_bytes ! 65 = 0x45" "tiny64_bytes ! 66 = 0" "tiny64_bytes ! 67 = 0"
  "tiny64_bytes ! 68 = 0x64" "tiny64_bytes ! 69 = 0x86"
  using dos_header_rest [of "0x40" 0 0 0 "[0x50, 0x45, 0, 0, 0x64, 0x86]" 0]
    dos_header_rest [of "0x40" 0 0 0 "[0x50, 0x45, 0, 0, 0x64, 0x86]" 1]
    dos_header_rest [of "0x40" 0 0 0 "[0x50, 0x45, 0, 0, 0x64, 0x86]" 2]
    dos_header_rest [of "0x40" 0 0 0 "[0x50, 0x45, 0, 0, 0x64, 0x86]" 3]
    dos_header_rest [of "0x40" 0 0 0 "[0x50, 0x45, 0, 0, 0x64, 0x86]" 4]
    dos_header_rest [of "0x40" 0 0 0 "[0x50, 0x45, 0, 0, 0x64, 0x86]" 5]
  by (simp_all add: tiny64_bytes_def dos_header_length dos_header_magic dos_header_lfanew)

lemma far_facts:
  "length far_bytes = 8198"
  "far_bytes ! 0 = 0x4D" "far_bytes ! 1 = 0x5A" "far_bytes ! Suc 0 = 0x5A"
  "far_bytes ! 60 = 0" "far_bytes ! 61 = 0x20" "far_bytes ! 62 = 0" "far_bytes ! 63 = 0"
  by (simp_all add: far_bytes_def dos_header_length dos_header_magic dos_header_lfanew)


lemmas field_defs = e_magic_def e_lfanew_def Signature_def Machine_def load_WORD_def
  load_DWORD_def IMAGE_DOS_SIGNATURE_def IMAGE_NT_SIGNATURE_def IMAGE_FILE_MACHINE_I386_def
  IMAGE_FILE_MACHINE_AMD64_def

lemma edge_open:
  "CreateFileW example_fs ''edge.bin'' = Some \<lparr>contents = edge_bytes, readable = True\<rparr>"
  by (simp add: CreateFileW_def example_fs_def)

lemma edge_readSize:
  "min (GetFileSize \<lparr>contents = edge_bytes, readable = True\<rparr>) 0x1000 = 65"
  by (simp add: GetFileSize_def edge_facts)


lemma tiny32_facts:
  "length tiny32_bytes = 70"
  "tiny32_bytes ! 0 = 0x4D" "tiny32_bytes ! 1 = 0x5A" "tiny32_bytes ! Suc 0 = 0x5A"
  "tiny32_bytes ! 60 = 0x40" "tiny32_bytes ! 61 = 0" "tiny32_bytes ! 62 = 0" "tiny32_bytes ! 63 = 0"
  "tiny32_bytes ! 64 = 0x50" "tiny32_bytes ! 65 = 0x45" "tiny32_bytes ! 66 = 0" "tiny32_bytes ! 67 = 0"
  "tiny32_bytes ! 68 = 0x4C" "tiny32_bytes ! 69 = 0x01"
  using dos_header_rest [of "0x40" 0 0 0 "[0x50, 0x45, 0, 0, 0x4C, 0x01]" 0]
    dos_header_rest [of "0x40" 0 0 0 "[0x50, 0x45, 0, 0, 0x4C, 0x01]" 1]
    dos_header_rest [of "0x40" 0 0 0 "[0x50, 0x45, 0, 0, 0x4C, 0x01]" 2]
    dos_header_rest [of "0x40" 0 0 0 "[0x50, 0x45, 0, 0, 0x4C, 0x01]" 3]
    dos_header_rest [of "0x40" 0 0 0 "[0x50, 0x45, 0, 0, 0x4C, 0x01]" 4]
    dos_header_rest [of "0x40" 0 0 0 "[0x50, 0x45, 0, 0, 0x4C, 0x01]" 5]
  by (simp_all add: tiny32_bytes_def dos_header_length dos_header_magic dos_header_lfanew)

lemma mzp_facts:
  "length mzp_bytes = 3" "mzp_bytes ! 0 = 0x4D" "mzp_bytes ! 1 = 0x5A" "mzp_bytes ! Suc 0 = 0x5A"
  "mzp_bytes ! 2 = 0x50"
  by (simp_all add: mzp_bytes_def)

lemma example_open:
  "CreateFileW example_fs ''tiny64.exe'' = Some \<lparr>contents = tiny64_bytes, readable = True\<rparr>"
  "CreateFileW example_fs ''tiny32.exe'' = Some \<lparr>contents = tiny32_bytes, readable = True\<rparr>"
  "CreateFileW example_fs ''far.exe'' = Some \<lparr>contents = far_bytes, readable = True\<rparr>"
  "CreateFileW example_fs ''mzp.txt'' = Some \<lparr>contents = mzp_bytes, readable = True\<rparr>"
  "CreateFileW example_fs ''empty.txt'' = Some \<lparr>contents = [], readable = True\<rparr>"
  "CreateFileW example_fs ''locked.exe'' = Some \<lparr>contents = tiny64_bytes, readable = False\<rparr>"
  "CreateFileW example_fs ''absent.exe'' = None"
  by (simp_all add: CreateFileW_def example_fs_def)

lemma example_readSize:
  "min (GetFileSize \<lparr>contents = tiny64_bytes, readable = True\<rparr>) 0x1000 = 70"
  "min (GetFileSize \<lparr>contents = tiny32_bytes, readable = True\<rparr>) 0x1000 = 70"
  "min (GetFileSize \<lparr>contents = far_bytes, readable = True\<rparr>) 0x1000 = 4096"
  "min (GetFileSize \<lparr>contents = mzp_bytes, readable = True\<rparr>) 0x1000 = 3"
  "min (GetFileSize \<lparr>contents = [], readable = True\<rparr>) 0x1000 = 0"
  by (simp_all add: GetFileSize_def tiny64_facts tiny32_facts far_facts mzp_facts)

lemma far_header_facts:
  "far_bytes ! 8192 = 0x50" "far_bytes ! 8193 = 0x45" "far_bytes ! 8194 = 0" "far_bytes ! 8195 = 0"
  "far_bytes ! 8196 = 0x64" "far_bytes ! 8197 = 0x86"
  using dos_header_rest [of 0 "0x20" 0 0 "replicate 8128 0 @ [0x50, 0x45, 0, 0, 0x64, 0x86]" 8128]
    dos_header_rest [of 0 "0x20" 0 0 "replicate 8128 0 @ [0x50, 0x45, 0, 0, 0x64, 0x86]" 8129]
    dos_header_rest [of 0 "0x20" 0 0 "replicate 8128 0 @ [0x50, 0x45, 0, 0, 0x64, 0x86]" 8130]
    dos_header_rest [of 0 "0x20" 0 0 "replicate 8128 0 @ [0x50, 0x45, 0, 0, 0x64, 0x86]" 8131]
    dos_header_rest [of 0 "0x20" 0 0 "replicate 8128 0 @ [0x50, 0x45, 0, 0, 0x64, 0x86]" 8132]
    dos_header_rest [of 0 "0x20" 0 0 "replicate 8128 0 @ [0x50, 0x45, 0, 0, 0x64, 0x86]" 8133]
  by (simp_all add: far_bytes_def nth_append)


subsection \<open>The result contract\<close>

text \<open>
  Claim C6. For every path, \<open>GetFileArchitecture\<close> returns one of \<open>notfound\<close>,
  \<open>invalid\<close>, \<open>x32\<close>, \<open>x64\<close>; the function has no other outcome (its result type is
  \<open>arch\<close>: the source has no \<^verbatim>\<open>throw\<close> and no exit). If the file cannot be opened the
  result is \<open>notfound\<close>; if it is opened and \<open>ReadFile\<close> fails the result is \<open>notfound\<close>;
  and the result differs from \<open>notfound\<close> exactly when the file was opened and the read
  succeeded.
\<close>

theorem GetFileArchitecture_result_contract:
  "GetFileArchitecture t fs stack name \<in> {notfound, invalid, x32, x64}
   \<and> (CreateFileW fs name = None \<longrightarrow> GetFileArchitecture t fs stack name = notfound)
   \<and> (\<forall>f. CreateFileW fs name = Some f
            \<and> ReadFile f stack (min (GetFileSize f) 0x1000) = None
          \<longrightarrow> GetFileArchitecture t fs stack name = notfound)
   \<and> (GetFileArchitecture t fs stack name \<noteq> notfound \<longleftrightarrow>
        (\<exists>f data read. CreateFileW fs name = Some f
            \<and> ReadFile f stack (min (GetFileSize f) 0x1000) = Some (data, read)))"
proof -
  have a: "GetFileArchitecture t fs stack name \<in> {notfound, invalid, x32, x64}"
    by (cases "GetFileArchitecture t fs stack name") simp_all
  have d: "GetFileArchitecture t fs stack name \<noteq> notfound \<longleftrightarrow>
        (\<exists>f data read. CreateFileW fs name = Some f
            \<and> ReadFile f stack (min (GetFileSize f) 0x1000) = Some (data, read))"
  proof (cases "CreateFileW fs name")
    case None
    then show ?thesis by (simp add: GetFileArchitecture_unopened)
  next
    case (Some f)
    show ?thesis
    proof (cases "ReadFile f stack (min (GetFileSize f) 0x1000)")
      case None
      with Some show ?thesis by (simp add: GetFileArchitecture_unread)
    next
      case (Some p)
      obtain data read where p: "p = (data, read)" by (cases p)
      from \<open>CreateFileW fs name = Some f\<close> Some p show ?thesis
        by (simp add: GetFileArchitecture_after_read)
    qed
  qed
  show ?thesis
    using a d GetFileArchitecture_unopened GetFileArchitecture_unread by blast
qed

theorem GetFileArchitecture_result_contract_witness:
  "CreateFileW example_fs ''absent.exe'' = None
   \<and> GetFileArchitecture Win64 example_fs zero_stack ''absent.exe'' = notfound
   \<and> CreateFileW example_fs ''locked.exe'' = Some \<lparr>contents = tiny64_bytes, readable = False\<rparr>
   \<and> ReadFile \<lparr>contents = tiny64_bytes, readable = False\<rparr> zero_stack
         (min (GetFileSize \<lparr>contents = tiny64_bytes, readable = False\<rparr>) 0x1000) = None
   \<and> GetFileArchitecture Win64 example_fs zero_stack ''locked.exe'' = notfound
   \<and> GetFileArchitecture Win64 example_fs zero_stack ''empty.txt'' \<noteq> notfound"
proof -
  note t1 = GetFileArchitecture_result_contract [of Win64 example_fs zero_stack "''absent.exe''"]
  note t2 = GetFileArchitecture_result_contract [of Win64 example_fs zero_stack "''locked.exe''"]
  note t3 = GetFileArchitecture_result_contract [of Win64 example_fs zero_stack "''empty.txt''"]
  have r: "ReadFile \<lparr>contents = tiny64_bytes, readable = False\<rparr> zero_stack
         (min (GetFileSize \<lparr>contents = tiny64_bytes, readable = False\<rparr>) 0x1000) = None"
    by (simp add: ReadFile_def)
  have a: "GetFileArchitecture Win64 example_fs zero_stack ''absent.exe'' = notfound"
    using t1 example_open(7) by simp
  have b: "GetFileArchitecture Win64 example_fs zero_stack ''locked.exe'' = notfound"
    using t2 example_open(6) r by simp
  have "\<exists>data read. ReadFile \<lparr>contents = [], readable = True\<rparr> zero_stack
         (min (GetFileSize \<lparr>contents = [], readable = True\<rparr>) 0x1000) = Some (data, read)"
    by (simp add: ReadFile_def Let_def)
  then have c: "GetFileArchitecture Win64 example_fs zero_stack ''empty.txt'' \<noteq> notfound"
    using t3 example_open(5) by simp
  show ?thesis using a b c r example_open(6,7) by simp
qed


subsection \<open>The bounds check on \<^verbatim>\<open>e_lfanew\<close>\<close>

text \<open>
  Claim C7. The probe reads \<open>min(fileSize, 4096)\<close> bytes from the start of the file into
  \<^verbatim>\<open>data\<close> (\<open>fileSize\<close> is what \<open>GetFileSize\<close> reports). When the DOS magic is valid and
  \<^verbatim>\<open>e_lfanew\<close> is not strictly less than the number of bytes read (read as an unsigned or
  as a signed number), the result is \<open>invalid\<close>; and so it is for every other readable
  file with the same first 4096 bytes and the same number of bytes to read, whatever
  follows in that file.
\<close>

theorem GetFileArchitecture_lfanew_beyond_read:
  assumes "CreateFileW fs name = Some f"
    and "ReadFile f stack (min (GetFileSize f) 0x1000) = Some (data, read)"
    and "e_magic data = IMAGE_DOS_SIGNATURE"
    and "unat read \<le> unat (e_lfanew data) \<or> int (unat read) \<le> sint (e_lfanew data)"
  shows "unat read = min (unat (GetFileSize f)) 4096
       \<and> (\<forall>i. i < unat read \<longrightarrow> data i = contents f ! i)
       \<and> GetFileArchitecture t fs stack name = invalid
       \<and> (\<forall>g. readable g \<and> min (GetFileSize g) 0x1000 = min (GetFileSize f) 0x1000
               \<and> take 4096 (contents g) = take 4096 (contents f)
             \<longrightarrow> GetFileArchitecture t (fs(name \<mapsto> g)) stack name = invalid)"
proof -
  note rd = ReadFile_Some [OF assms(2)]
  have n: "unat read = min (unat (GetFileSize f)) 4096"
    unfolding rd(2) by (simp add: min_def word_le_nat_alt)
  have le: "unat read \<le> 4096" using n by simp
  have d: "\<forall>i. i < unat read \<longrightarrow> data i = contents f ! i"
    using rd(3) by simp
  have out: "\<not> (0 \<le> sint (e_lfanew data) \<and> sint (e_lfanew data) < int (unat read))"
  proof
    assume b: "0 \<le> sint (e_lfanew data) \<and> sint (e_lfanew data) < int (unat read)"
    then have "sint (e_lfanew data) = int (unat (e_lfanew data))"
      using sint_nonneg_unat [of "e_lfanew data"] by simp
    with b assms(4) show False by linarith
  qed
  then have nb: "\<not> size_t_of_LONG t (e_lfanew data) < unat read"
    using bounds_check_meaning [OF assms(2)] by simp
  have inv: "GetFileArchitecture t fs stack name = invalid"
    using nb by (simp add: GetFileArchitecture_after_read [OF assms(1,2)])
  have other: "GetFileArchitecture t (fs(name \<mapsto> g)) stack name = invalid"
    if g: "readable g" "min (GetFileSize g) 0x1000 = min (GetFileSize f) 0x1000"
      "take 4096 (contents g) = take 4096 (contents f)" for g
  proof -
    have o: "CreateFileW (fs(name \<mapsto> g)) name = Some g" by (simp add: CreateFileW_def)
    have same: "contents g ! i = contents f ! i" if "i < unat read" for i
    proof -
      have "i < 4096" using that le by simp
      then have "contents g ! i = take 4096 (contents g) ! i"
        and "contents f ! i = take 4096 (contents f) ! i" by simp_all
      then show ?thesis using g(3) by simp
    qed
    have "(\<lambda>i. if i < unat read then contents g ! i else stack i) = data"
      unfolding rd(3) [unfolded rd(2) [symmetric]] using same by auto
    then have r: "ReadFile g stack (min (GetFileSize g) 0x1000) = Some (data, read)"
      using ReadFile_readable [OF g(1), of stack] g(2) rd(2) by simp
    show ?thesis
      using nb by (simp add: GetFileArchitecture_after_read [OF o r])
  qed
  show ?thesis using n d inv other by blast
qed

theorem GetFileArchitecture_lfanew_beyond_read_witness:
  "\<exists>data read.
     CreateFileW example_fs ''far.exe'' = Some \<lparr>contents = far_bytes, readable = True\<rparr>
     \<and> ReadFile \<lparr>contents = far_bytes, readable = True\<rparr> zero_stack
           (min (GetFileSize \<lparr>contents = far_bytes, readable = True\<rparr>) 0x1000) = Some (data, read)
     \<and> e_magic data = IMAGE_DOS_SIGNATURE
     \<and> unat read = 4096 \<and> sint (e_lfanew data) = 8192
     \<and> Signature (\<lambda>i. far_bytes ! i) 8192 = IMAGE_NT_SIGNATURE
     \<and> Machine (\<lambda>i. far_bytes ! i) 8192 = IMAGE_FILE_MACHINE_AMD64
     \<and> GetFileArchitecture Win64 example_fs zero_stack ''far.exe'' = invalid"
proof -
  let ?f = "\<lparr>contents = far_bytes, readable = True\<rparr>"
  let ?D = "\<lambda>i. if i < unat (4096 :: DWORD) then contents ?f ! i else zero_stack i"
  have r: "ReadFile ?f zero_stack (min (GetFileSize ?f) 0x1000) = Some (?D, 4096)"
    using ReadFile_readable [of ?f zero_stack] by (simp only: example_readSize(3)) simp
  have m: "e_magic ?D = IMAGE_DOS_SIGNATURE"
    by (simp add: field_defs far_facts)
  have e: "e_lfanew ?D = 0x2000"
    by (simp add: field_defs far_facts)
  have h: "unat (4096 :: DWORD) \<le> unat (e_lfanew ?D) \<or> int (unat (4096 :: DWORD)) \<le> sint (e_lfanew ?D)"
    unfolding e by simp
  have e': "sint (e_lfanew ?D) = 8192"
    unfolding e by simp
  have s: "Signature (\<lambda>i. far_bytes ! i) 8192 = IMAGE_NT_SIGNATURE"
    and k: "Machine (\<lambda>i. far_bytes ! i) 8192 = IMAGE_FILE_MACHINE_AMD64"
    by (simp_all add: field_defs far_header_facts)
  have "GetFileArchitecture Win64 example_fs zero_stack ''far.exe'' = invalid"
    using GetFileArchitecture_lfanew_beyond_read [OF example_open(3) r m h, of Win64] by simp
  with r m e' s k example_open(3) have
    "CreateFileW example_fs ''far.exe'' = Some ?f
     \<and> ReadFile ?f zero_stack (min (GetFileSize ?f) 0x1000) = Some (?D, 4096)
     \<and> e_magic ?D = IMAGE_DOS_SIGNATURE
     \<and> unat (4096 :: DWORD) = 4096 \<and> sint (e_lfanew ?D) = 8192
     \<and> Signature (\<lambda>i. far_bytes ! i) 8192 = IMAGE_NT_SIGNATURE
     \<and> Machine (\<lambda>i. far_bytes ! i) 8192 = IMAGE_FILE_MACHINE_AMD64
     \<and> GetFileArchitecture Win64 example_fs zero_stack ''far.exe'' = invalid"
    by (simp only: unat_numeral) simp
  then show ?thesis by blast
qed


subsection \<open>The classification step\<close>

text \<open>
  Claim C8. After a successful read: when the DOS magic check, the bounds check
  \<^verbatim>\<open>(size_t)pdh->e_lfanew < readSize\<close> and the NT signature check all pass, the result is
  a function of the machine field alone (\<open>x32\<close> for i386, \<open>x64\<close> for AMD64, \<open>invalid\<close> for
  any other value); when one of the three checks fails the result is \<open>invalid\<close>. On both
  targets the bounds check says that \<^verbatim>\<open>e_lfanew\<close> is not negative and less than the
  number of bytes read.
\<close>

theorem GetFileArchitecture_classification:
  assumes "CreateFileW fs name = Some f"
    and "ReadFile f stack (min (GetFileSize f) 0x1000) = Some (data, read)"
  shows "(e_magic data = IMAGE_DOS_SIGNATURE
          \<and> size_t_of_LONG t (e_lfanew data) < unat read
          \<and> Signature data (nat (sint (e_lfanew data))) = IMAGE_NT_SIGNATURE
          \<longrightarrow> GetFileArchitecture t fs stack name =
               (if Machine data (nat (sint (e_lfanew data))) = IMAGE_FILE_MACHINE_I386 then x32
                else if Machine data (nat (sint (e_lfanew data))) = IMAGE_FILE_MACHINE_AMD64 then x64
                else invalid))
       \<and> (\<not> (e_magic data = IMAGE_DOS_SIGNATURE
             \<and> size_t_of_LONG t (e_lfanew data) < unat read
             \<and> Signature data (nat (sint (e_lfanew data))) = IMAGE_NT_SIGNATURE)
          \<longrightarrow> GetFileArchitecture t fs stack name = invalid)
       \<and> (size_t_of_LONG t (e_lfanew data) < unat read
            \<longleftrightarrow> 0 \<le> sint (e_lfanew data) \<and> sint (e_lfanew data) < int (unat read))"
  using bounds_check_meaning [OF assms(2), of t "e_lfanew data"]
  by (simp add: GetFileArchitecture_after_read [OF assms])

theorem GetFileArchitecture_classification_witness:
  "(\<exists>data read.
      ReadFile \<lparr>contents = tiny64_bytes, readable = True\<rparr> zero_stack
        (min (GetFileSize \<lparr>contents = tiny64_bytes, readable = True\<rparr>) 0x1000) = Some (data, read)
      \<and> e_magic data = IMAGE_DOS_SIGNATURE
      \<and> size_t_of_LONG Win64 (e_lfanew data) < unat read
      \<and> Signature data (nat (sint (e_lfanew data))) = IMAGE_NT_SIGNATURE
      \<and> Machine data (nat (sint (e_lfanew data))) = IMAGE_FILE_MACHINE_AMD64)
   \<and> GetFileArchitecture Win64 example_fs zero_stack ''tiny64.exe'' = x64
   \<and> (\<exists>data read.
      ReadFile \<lparr>contents = tiny32_bytes, readable = True\<rparr> zero_stack
        (min (GetFileSize \<lparr>contents = tiny32_bytes, readable = True\<rparr>) 0x1000) = Some (data, read)
      \<and> e_magic data = IMAGE_DOS_SIGNATURE
      \<and> size_t_of_LONG Win32 (e_lfanew data) < unat read
      \<and> Signature data (nat (sint (e_lfanew data))) = IMAGE_NT_SIGNATURE
      \<and> Machine data (nat (sint (e_lfanew data))) = IMAGE_FILE_MACHINE_I386)
   \<and> GetFileArchitecture Win32 example_fs zero_stack ''tiny32.exe'' = x32
   \<and> (\<exists>data read.
      ReadFile \<lparr>contents = edge_bytes, readable = True\<rparr> zero_stack
        (min (GetFileSize \<lparr>contents = edge_bytes, readable = True\<rparr>) 0x1000) = Some (data, read)
      \<and> Signature data (nat (sint (e_lfanew data))) \<noteq> IMAGE_NT_SIGNATURE)
   \<and> GetFileArchitecture Win64 example_fs zero_stack ''edge.bin'' = invalid"
proof -
  let ?f = "\<lparr>contents = tiny64_bytes, readable = True\<rparr>"
  let ?D = "\<lambda>i. if i < unat (70 :: DWORD) then contents ?f ! i else zero_stack i"
  have r: "ReadFile ?f zero_stack (min (GetFileSize ?f) 0x1000) = Some (?D, 70)"
    using ReadFile_readable [of ?f zero_stack] by (simp only: example_readSize(1)) simp
  have m: "e_magic ?D = IMAGE_DOS_SIGNATURE"
    by (simp add: field_defs tiny64_facts)
  have e: "e_lfanew ?D = 0x40"
    by (simp add: field_defs tiny64_facts)
  have b: "size_t_of_LONG Win64 (e_lfanew ?D) < unat (70 :: DWORD)"
    unfolding e by (simp add: size_t_of_LONG_def)
  have s: "Signature ?D (nat (sint (e_lfanew ?D))) = IMAGE_NT_SIGNATURE"
    unfolding e by (simp add: field_defs tiny64_facts)
  have k: "Machine ?D (nat (sint (e_lfanew ?D))) = IMAGE_FILE_MACHINE_AMD64"
    unfolding e by (simp add: field_defs tiny64_facts)
  have x: "GetFileArchitecture Win64 example_fs zero_stack ''tiny64.exe'' = x64"
    using GetFileArchitecture_classification [OF example_open(1) r, of Win64] m b s k
    by (simp add: IMAGE_FILE_MACHINE_AMD64_def IMAGE_FILE_MACHINE_I386_def)
  let ?g = "\<lparr>contents = tiny32_bytes, readable = True\<rparr>"
  let ?E = "\<lambda>i. if i < unat (70 :: DWORD) then contents ?g ! i else zero_stack i"
  have r2: "ReadFile ?g zero_stack (min (GetFileSize ?g) 0x1000) = Some (?E, 70)"
    using ReadFile_readable [of ?g zero_stack] by (simp only: example_readSize(2)) simp
  have m2: "e_magic ?E = IMAGE_DOS_SIGNATURE"
    by (simp add: field_defs tiny32_facts)
  have e2: "e_lfanew ?E = 0x40"
    by (simp add: field_defs tiny32_facts)
  have b2: "size_t_of_LONG Win32 (e_lfanew ?E) < unat (70 :: DWORD)"
    unfolding e2 by (simp add: size_t_of_LONG_def)
  have s2: "Signature ?E (nat (sint (e_lfanew ?E))) = IMAGE_NT_SIGNATURE"
    unfolding e2 by (simp add: field_defs tiny32_facts)
  have k2: "Machine ?E (nat (sint (e_lfanew ?E))) = IMAGE_FILE_MACHINE_I386"
    unfolding e2 by (simp add: field_defs tiny32_facts)
  have x2: "GetFileArchitecture Win32 example_fs zero_stack ''tiny32.exe'' = x32"
    using GetFileArchitecture_classification [OF example_open(2) r2, of Win32] m2 b2 s2 k2
    by simp
  let ?h = "\<lparr>contents = edge_bytes, readable = True\<rparr>"
  let ?F = "\<lambda>i. if i < unat (65 :: DWORD) then contents ?h ! i else zero_stack i"
  have r3: "ReadFile ?h zero_stack (min (GetFileSize ?h) 0x1000) = Some (?F, 65)"
    using ReadFile_readable [of ?h zero_stack] by (simp only: edge_readSize) simp
  have e3: "e_lfanew ?F = 0x40"
    by (simp add: field_defs edge_facts)
  have s3: "Signature ?F (nat (sint (e_lfanew ?F))) \<noteq> IMAGE_NT_SIGNATURE"
    unfolding e3 by (simp add: field_defs edge_facts zero_stack_def)
  have x3: "GetFileArchitecture Win64 example_fs zero_stack ''edge.bin'' = invalid"
    using GetFileArchitecture_classification [OF edge_open r3, of Win64] s3 by simp
  from r m b s k have p1: "\<exists>data read.
      ReadFile ?f zero_stack (min (GetFileSize ?f) 0x1000) = Some (data, read)
      \<and> e_magic data = IMAGE_DOS_SIGNATURE
      \<and> size_t_of_LONG Win64 (e_lfanew data) < unat read
      \<and> Signature data (nat (sint (e_lfanew data))) = IMAGE_NT_SIGNATURE
      \<and> Machine data (nat (sint (e_lfanew data))) = IMAGE_FILE_MACHINE_AMD64"
    by blast
  from r2 m2 b2 s2 k2 have p2: "\<exists>data read.
      ReadFile ?g zero_stack (min (GetFileSize ?g) 0x1000) = Some (data, read)
      \<and> e_magic data = IMAGE_DOS_SIGNATURE
      \<and> size_t_of_LONG Win32 (e_lfanew data) < unat read
      \<and> Signature data (nat (sint (e_lfanew data))) = IMAGE_NT_SIGNATURE
      \<and> Machine data (nat (sint (e_lfanew data))) = IMAGE_FILE_MACHINE_I386"
    by blast
  from r3 s3 have p3: "\<exists>data read.
      ReadFile ?h zero_stack (min (GetFileSize ?h) 0x1000) = Some (data, read)
      \<and> Signature data (nat (sint (e_lfanew data))) \<noteq> IMAGE_NT_SIGNATURE"
    by blast
  show ?thesis using p1 x p2 x2 p3 x3 by blast
qed


subsection \<open>A text file classified as an executable\<close>

text \<open>
  Claim C9. A zero-byte file, and every readable file that is not an executable (a plain
  text file, say), is to be classified \<open>invalid\<close>. For the zero-byte file this holds
  (\<open>GetFileArchitecture_empty_file\<close>). It fails for the text file \<^verbatim>\<open>mzp.txt\<close>, whose three
  bytes are the characters \<^verbatim>\<open>MZP\<close>: with \<open>stale_stack\<close> at the address of \<^verbatim>\<open>data\<close>, the
  magic is read from the file, \<^verbatim>\<open>e_lfanew = 2\<close> from the stack, the signature from the
  last byte of the file and three bytes of the stack, the machine field from the stack, and
  the result is \<open>x32\<close>, on both targets.
\<close>

theorem GetFileArchitecture_text_file_x32:
  "GetFileArchitecture Win32 example_fs stale_stack ''mzp.txt'' = x32
   \<and> GetFileArchitecture Win64 example_fs stale_stack ''mzp.txt'' = x32"
  by (simp add: GetFileArchitecture_readable [OF example_open(4) _ example_readSize(4) refl refl]
      field_defs mzp_facts stale_stack_def)


subsection \<open>Loads beyond the bytes read\<close>

text \<open>
  Claim C10. Not every header byte that \<open>GetFileArchitecture\<close> inspects lies within the
  bytes read from the file. For the zero-byte file nothing is read and the DOS magic is
  loaded from offsets 0 and 1. For the three-byte file \<^verbatim>\<open>mzp.txt\<close>, shorter than a DOS
  header, \<^verbatim>\<open>e_lfanew\<close>, most of the signature and the machine field are loaded from offsets
  beyond the three bytes read. For \<^verbatim>\<open>edge.bin\<close>, 65 bytes with \<^verbatim>\<open>e_lfanew = 64\<close>, that is
  the number of bytes read less one, the bounds check passes and offsets 65 to 69 are
  loaded; the classification of this one file is \<open>x64\<close> with one stack and \<open>invalid\<close> with
  another, so it depends on bytes that were not read from the file.
\<close>

theorem GetFileArchitecture_loads_beyond_read:
  "GetFileArchitecture_loads Win64 example_fs stale_stack ''empty.txt'' = Some (0, [0, 1])
   \<and> GetFileArchitecture_loads Win64 example_fs stale_stack ''mzp.txt''
        = Some (3, [0, 1, 60, 61, 62, 63, 2, 3, 4, 5, 6, 7])
   \<and> GetFileArchitecture_loads Win64 example_fs stale_stack ''edge.bin''
        = Some (65, [0, 1, 60, 61, 62, 63, 64, 65, 66, 67, 68, 69])
   \<and> GetFileArchitecture Win64 example_fs stale_stack ''edge.bin'' = x64
   \<and> GetFileArchitecture Win64 example_fs zero_stack ''edge.bin'' = invalid"
proof -
  have a: "GetFileArchitecture_loads Win64 example_fs stale_stack ''empty.txt'' = Some (0, [0, 1])"
    by (simp add: GetFileArchitecture_loads_readable [OF example_open(5) _ example_readSize(5) refl refl]
      field_defs stale_stack_def)
  have b: "GetFileArchitecture_loads Win64 example_fs stale_stack ''mzp.txt''
        = Some (3, [0, 1, 60, 61, 62, 63, 2, 3, 4, 5, 6, 7])"
    by (simp add: GetFileArchitecture_loads_readable [OF example_open(4) _ example_readSize(4) refl refl]
      field_defs mzp_facts stale_stack_def)
  have c: "GetFileArchitecture_loads Win64 example_fs stale_stack ''edge.bin''
        = Some (65, [0, 1, 60, 61, 62, 63, 64, 65, 66, 67, 68, 69])"
    by (simp add: GetFileArchitecture_loads_readable [OF edge_open _ edge_readSize refl refl]
      field_defs edge_facts stale_stack_def)
  have d: "GetFileArchitecture Win64 example_fs stale_stack ''edge.bin'' = x64"
    by (simp add: GetFileArchitecture_readable [OF edge_open _ edge_readSize refl refl] field_defs
      edge_facts stale_stack_def)
  have e: "GetFileArchitecture Win64 example_fs zero_stack ''edge.bin'' = invalid"
    by (simp add: GetFileArchitecture_readable [OF edge_open _ edge_readSize refl refl] field_defs
      edge_facts zero_stack_def)
  show ?thesis using a b c d e by simp
qed

end
